theory Spec2Isabelle
  imports Complex_Main "HOL-Library.Log_Nat"
begin

section \<open>Python values and failures\<close>

text \<open>
  The engine table stores, per engine, a dict from field names to an integer or a string.
  A dict literal is an association list in insertion order; \<open>d[k]\<close> raises KeyError on a
  missing key, \<open>d.get(k)\<close> gives None, and a dict is falsy exactly when it is empty.
\<close>

datatype pyval = PyInt int | PyStr string

type_synonym engine_dict = "(string \<times> pyval) list"
type_synonym sensor_dict = "(string \<times> string) list"

text \<open>
  Every way a handler can end without a response body: the two HTTPException raises of the
  source, and the Python exceptions its expressions can raise (which the framework turns
  into status 500).
\<close>

datatype failure =
    HTTPException nat string
  | KeyError string
  | AttributeError string
  | TypeError
  | ZeroDivisionError
  | ResponseValidationError

definition getitem :: "(string \<times> 'v) list \<Rightarrow> string \<Rightarrow> failure + 'v" where
  "getitem d k = (case map_of d k of None \<Rightarrow> Inl (KeyError k) | Some v \<Rightarrow> Inr v)"

section \<open>Binary64 arithmetic\<close>

text \<open>
  A Python float is an IEEE 754 binary64 number. A finite float is represented by the
  rational it denotes; \<open>fl\<close> rounds a rational to the nearest float, ties to even, with
  gradual underflow (the smallest spacing is \<open>2^-1074\<close>). Overflow is not represented:
  the only operands ever rounded below have magnitude at most 4500.
\<close>

definition pow2 :: "int \<Rightarrow> rat" where
  "pow2 e = (if 0 \<le> e then 2 ^ nat e else 1 / 2 ^ nat (- e))"

definition round_half_even :: "rat \<Rightarrow> int" where
  "round_half_even x =
     (let f = \<lfloor>x\<rfloor>; d = x - of_int f
      in if d < 1 / 2 then f
         else if 1 / 2 < d then f + 1
         else if even f then f else f + 1)"

text \<open>\<open>floor_log2 x\<close> is \<open>\<lfloor>log\<^sub>2 x\<rfloor>\<close> for a positive rational \<open>x\<close>.\<close>

definition floor_log2 :: "rat \<Rightarrow> int" where
  "floor_log2 x =
     (if 1 \<le> x then int (floorlog 2 (nat \<lfloor>x\<rfloor>)) - 1
      else - int (floorlog 2 (nat (\<lceil>1 / x\<rceil> - 1))))"

definition fl :: "rat \<Rightarrow> rat" where
  "fl x =
     (if x = 0 then 0
      else let e = max (- 1074) (floor_log2 \<bar>x\<bar> - 52)
           in of_int (round_half_even (x / pow2 e)) * pow2 e)"

text \<open>
  \<open>a / b\<close> on two ints is correctly rounded true division; \<open>x * y\<close> on floats is the
  rounded product; a float literal is the float nearest to its decimal.
\<close>

definition int_truediv :: "int \<Rightarrow> int \<Rightarrow> rat" where
  "int_truediv a b = fl (of_int a / of_int b)"

definition float_mul :: "rat \<Rightarrow> rat \<Rightarrow> rat" where
  "float_mul x y = fl (x * y)"

definition float_literal :: "rat \<Rightarrow> rat" where
  "float_literal d = fl d"

text \<open>
  \<open>round(x, 2)\<close>: the exact value of \<open>x\<close> is rounded to two decimal places, ties to
  even, and the resulting decimal is converted to the nearest float. (On the ints 0 and
  100, which the clamp can hand over, \<open>round\<close> returns the int itself: the same number.)
\<close>

definition py_round2 :: "rat \<Rightarrow> rat" where
  "py_round2 x = fl (of_int (round_half_even (x * 100)) / 100)"

text \<open>
  \<open>min(a, b)\<close> returns \<open>b\<close> only when \<open>b < a\<close>, and \<open>max(a, b)\<close> returns \<open>b\<close> only
  when \<open>b > a\<close>; otherwise the first argument.
\<close>

definition py_min :: "rat \<Rightarrow> rat \<Rightarrow> rat" where
  "py_min a b = (if b < a then b else a)"

definition py_max :: "rat \<Rightarrow> rat \<Rightarrow> rat" where
  "py_max a b = (if a < b then b else a)"

section \<open>The inference service (main.py)\<close>

record InferenceService =
  model :: "string option"

definition InferenceService_init :: InferenceService where
  "InferenceService_init = \<lparr>model = None\<rparr>"

definition load :: "InferenceService \<Rightarrow> InferenceService" where
  "load self = self\<lparr>model := Some ''LSTM_LOADED''\<rparr>"

record prediction =
  predicted_rul :: int
  health_score :: rat
  risk_level :: string
  confidence :: rat

definition risk_of :: "rat \<Rightarrow> string" where
  "risk_of h = (if h < 30 then ''High'' else if h < 70 then ''Medium'' else ''Low'')"

fun predict :: "pyval \<Rightarrow> failure + prediction" where
  "predict (PyInt max_cycles) =
     (let predicted_rul = 45
      in if max_cycles = 0 then Inl ZeroDivisionError
         else
           let health_score =
                 py_max 0 (py_min 100 (float_mul (int_truediv predicted_rul max_cycles) 100));
               risk = risk_of health_score
           in Inr \<lparr>predicted_rul = predicted_rul,
                   health_score = py_round2 health_score,
                   risk_level = risk,
                   confidence = float_literal (95 / 100)\<rparr>)"
| "predict (PyStr _) = Inl TypeError"

section \<open>Constants and schemas (endpoints.py)\<close>

text \<open>
  The degree sign of the unit \<open>\<degree>R\<close> is written as the two bytes of its UTF-8 encoding.
\<close>

definition deg_R :: string where
  "deg_R = [CHR 0xC2, CHR 0xB0, CHR ''R'']"

definition SENSOR_METADATA :: "(string \<times> sensor_dict) list" where
  "SENSOR_METADATA =
    [(''s_1'', [(''name'', ''Fan Inlet Temperature''), (''unit'', deg_R)]),
     (''s_2'', [(''name'', ''LPC Outlet Temperature''), (''unit'', deg_R)]),
     (''s_3'', [(''name'', ''HPC Outlet Temperature''), (''unit'', deg_R)]),
     (''s_4'', [(''name'', ''LPT Outlet Temperature''), (''unit'', deg_R)]),
     (''s_5'', [(''name'', ''Fan Inlet Pressure''), (''unit'', ''psia'')]),
     (''s_6'', [(''name'', ''Bypass Duct Pressure''), (''unit'', ''psia'')]),
     (''s_7'', [(''name'', ''HPC Outlet Pressure''), (''unit'', ''psia'')]),
     (''s_8'', [(''name'', ''Physical Fan Speed''), (''unit'', ''rpm'')]),
     (''s_9'', [(''name'', ''Physical Core Speed''), (''unit'', ''rpm'')]),
     (''s_10'', [(''name'', ''Engine Pressure Ratio''), (''unit'', ''-'')]),
     (''s_11'', [(''name'', ''HPC Outlet Static Pressure''), (''unit'', ''psia'')]),
     (''s_12'', [(''name'', ''Fuel Flow Ratio''), (''unit'', ''pps/psi'')]),
     (''s_13'', [(''name'', ''Corrected Fan Speed''), (''unit'', ''rpm'')]),
     (''s_14'', [(''name'', ''Corrected Core Speed''), (''unit'', ''rpm'')]),
     (''s_15'', [(''name'', ''Bypass Ratio''), (''unit'', ''-'')]),
     (''s_16'', [(''name'', ''Burner Fuel-Air Ratio''), (''unit'', ''-'')]),
     (''s_17'', [(''name'', ''Bleed Enthalpy''), (''unit'', ''-'')]),
     (''s_18'', [(''name'', ''Demanded Fan Speed''), (''unit'', ''rpm'')]),
     (''s_19'', [(''name'', ''Demanded Corrected Fan Speed''), (''unit'', ''rpm'')]),
     (''s_20'', [(''name'', ''HPT Coolant Bleed''), (''unit'', ''lbm/s'')]),
     (''s_21'', [(''name'', ''LPT Coolant Bleed''), (''unit'', ''lbm/s'')])]"

definition FAKE_DB_ENGINES :: "(int \<times> engine_dict) list" where
  "FAKE_DB_ENGINES =
    [(1, [(''max_cycles'', PyInt 192), (''status'', PyStr ''Active'')]),
     (2, [(''max_cycles'', PyInt 250), (''status'', PyStr ''Retired'')]),
     (5, [(''max_cycles'', PyInt 150), (''status'', PyStr ''Active'')])]"

record SensorSeries =
  sensor_id :: string
  name :: string
  unit :: string
  data :: "int list"

record SensorTrendResponse =
  trend_unit_id :: int
  cycles :: "int list"
  rul_trend :: "int list"
  sensors :: "SensorSeries list"

text \<open>
  The prediction response is the scoring result (\<open>**result\<close>) extended by the unit
  identifier and the current cycle.
\<close>

record PredictionResponse = prediction +
  unit_id :: int
  current_cycle :: int

text \<open>
  A row of the engine listing, as the handler builds it: the two looked-up values are
  passed on as they are.
\<close>

record EngineMetadata =
  engine_unit_id :: int
  engine_max_cycles :: pyval
  engine_status :: pyval

text \<open>
  The response schema's one numeric constraint, \<open>Field(..., ge=0, le=100)\<close> on
  \<open>health_score\<close>: a response outside it is a validation failure, not a response.
\<close>

definition validate_PredictionResponse :: "PredictionResponse \<Rightarrow> failure + PredictionResponse" where
  "validate_PredictionResponse r =
     (if 0 \<le> health_score r \<and> health_score r \<le> 100 then Inr r
      else Inl ResponseValidationError)"

section \<open>Process state\<close>

text \<open>
  Everything a handler could read or write: the two module-level tables and the
  attribute \<open>app.state.inference_service\<close>, which is absent (\<open>None\<close>) until the
  startup hook stores the service object.
\<close>

record world =
  db_engines :: "(int \<times> engine_dict) list"
  sensor_metadata :: "(string \<times> sensor_dict) list"
  inference_service :: "InferenceService option"

definition module_init :: world where
  "module_init =
     \<lparr>db_engines = FAKE_DB_ENGINES,
      sensor_metadata = SENSOR_METADATA,
      inference_service = None\<rparr>"

text \<open>
  The part of \<open>lifespan\<close> before its \<open>yield\<close>: build the service, load it, and only
  then store it in the application state.
\<close>

definition lifespan_startup :: "world \<Rightarrow> world" where
  "lifespan_startup w =
     (let service = InferenceService_init;
          service = load service
      in w\<lparr>inference_service := Some service\<rparr>)"

section \<open>Endpoints\<close>

definition health :: "world \<Rightarrow> (failure + string) \<times> world" where
  "health w = (Inr ''ok'', w)"

definition ready :: "world \<Rightarrow> (failure + bool) \<times> world" where
  "ready w =
     (case inference_service w of
        None \<Rightarrow> (Inl (AttributeError ''inference_service''), w)
      | Some service \<Rightarrow> (Inr (model service \<noteq> None), w))"

fun engine_rows :: "(int \<times> engine_dict) list \<Rightarrow> failure + EngineMetadata list" where
  "engine_rows [] = Inr []"
| "engine_rows ((k, v) # rest) =
     (case getitem v ''max_cycles'' of
        Inl e \<Rightarrow> Inl e
      | Inr mc \<Rightarrow>
         (case getitem v ''status'' of
            Inl e \<Rightarrow> Inl e
          | Inr st \<Rightarrow>
             (case engine_rows rest of
                Inl e \<Rightarrow> Inl e
              | Inr rows \<Rightarrow>
                  Inr (\<lparr>engine_unit_id = k, engine_max_cycles = mc, engine_status = st\<rparr> # rows))))"

definition list_engines :: "world \<Rightarrow> (failure + EngineMetadata list) \<times> world" where
  "list_engines w = (engine_rows (db_engines w), w)"

definition predict_rul :: "int \<Rightarrow> world \<Rightarrow> (failure + PredictionResponse) \<times> world" where
  "predict_rul uid w =
     (case map_of (db_engines w) uid of
        None \<Rightarrow> (Inl (HTTPException 404 ''Engine not found''), w)
      | Some engine \<Rightarrow>
         if engine = [] then (Inl (HTTPException 404 ''Engine not found''), w)
         else
          (case getitem engine ''status'' of
             Inl e \<Rightarrow> (Inl e, w)
           | Inr st \<Rightarrow>
              if st = PyStr ''Retired'' then (Inl (HTTPException 422 ''Engine is retired''), w)
              else
               (case inference_service w of
                  None \<Rightarrow> (Inl (AttributeError ''inference_service''), w)
                | Some service \<Rightarrow>
                   (case getitem engine ''max_cycles'' of
                      Inl e \<Rightarrow> (Inl e, w)
                    | Inr mc \<Rightarrow>
                       (case predict mc of
                          Inl e \<Rightarrow> (Inl e, w)
                        | Inr result \<Rightarrow>
                           (case mc of
                              PyStr _ \<Rightarrow> (Inl TypeError, w)
                            | PyInt m \<Rightarrow>
                               (validate_PredictionResponse
                                  (prediction.extend result
                                     (PredictionResponse.fields uid (m - predicted_rul result))),
                                w)))))))"

fun sensor_loop ::
  "(string \<times> sensor_dict) list \<Rightarrow> int list \<Rightarrow> string list \<Rightarrow> SensorSeries list
     \<Rightarrow> failure + SensorSeries list" where
  "sensor_loop tbl cyc [] acc = Inr acc"
| "sensor_loop tbl cyc (sid # rest) acc =
     (case getitem tbl sid of
        Inl e \<Rightarrow> Inl e
      | Inr meta \<Rightarrow>
         (case getitem meta ''name'' of
            Inl e \<Rightarrow> Inl e
          | Inr nm \<Rightarrow>
             (case getitem meta ''unit'' of
                Inl e \<Rightarrow> Inl e
              | Inr un \<Rightarrow>
                 sensor_loop tbl cyc rest
                   (acc @ [\<lparr>sensor_id = sid, name = nm, unit = un,
                            data = map (\<lambda>i. 1400 + int i * 2) [0..<length cyc]\<rparr>]))))"

definition get_trends :: "int \<Rightarrow> world \<Rightarrow> (failure + SensorTrendResponse) \<times> world" where
  "get_trends uid w =
     (if map_of (db_engines w) uid = None
      then (Inl (HTTPException 404 ''Engine not found''), w)
      else
        let cyc = [100, 101, 102, 103, 104];
            critical_sensors = [''s_2'', ''s_11'', ''s_12'', ''s_14'']
        in (case sensor_loop (sensor_metadata w) cyc critical_sensors [] of
              Inl e \<Rightarrow> (Inl e, w)
            | Inr sens \<Rightarrow>
                (Inr \<lparr>trend_unit_id = uid, cycles = cyc,
                      rul_trend = [50, 49, 48, 47, 45], sensors = sens\<rparr>, w)))"

section \<open>Requests, status codes and the serving process\<close>

datatype request = GetHealth | GetReady | ListEngines | PredictRul int | GetTrends int

datatype body =
    HealthBody string
  | ReadyBody bool
  | EngineListBody "EngineMetadata list"
  | PredictionBody PredictionResponse
  | TrendBody SensorTrendResponse

definition respond :: "('a \<Rightarrow> body) \<Rightarrow> (failure + 'a) \<times> world \<Rightarrow> (failure + body) \<times> world" where
  "respond wrap out = (case out of (Inl e, w) \<Rightarrow> (Inl e, w) | (Inr r, w) \<Rightarrow> (Inr (wrap r), w))"

fun handle :: "request \<Rightarrow> world \<Rightarrow> (failure + body) \<times> world" where
  "handle GetHealth w = respond HealthBody (health w)"
| "handle GetReady w = respond ReadyBody (ready w)"
| "handle ListEngines w = respond EngineListBody (list_engines w)"
| "handle (PredictRul uid) w = respond PredictionBody (predict_rul uid w)"
| "handle (GetTrends uid) w = respond TrendBody (get_trends uid w)"

text \<open>
  The status line the framework sends: 200 for a returned body, the stated code for an
  HTTPException, 500 for any other exception.
\<close>

fun status_code :: "failure + 'a \<Rightarrow> nat" where
  "status_code (Inr _) = 200"
| "status_code (Inl (HTTPException c _)) = c"
| "status_code (Inl _) = 500"

text \<open>
  The states in which the server answers requests: the startup hook has run on the
  freshly imported module, and any number of requests have been handled since.
\<close>

inductive serving :: "world \<Rightarrow> bool" where
  started: "serving (lifespan_startup module_init)"
| handled: "serving w \<Longrightarrow> serving (snd (handle req w))"

section \<open>The scoring rule as the specification words it\<close>





section \<open>The arithmetic model is a rounding\<close>






















section \<open>Handlers leave the state alone\<close>

lemma snd_respond: "snd (respond f out) = snd out"
  by (simp add: respond_def split: prod.splits sum.splits)

lemma fst_respond:
  "fst (respond f out) = (case fst out of Inl e \<Rightarrow> Inl e | Inr r \<Rightarrow> Inr (f r))"
  by (simp add: respond_def split: prod.splits sum.splits)

lemma snd_health: "snd (health w) = w"
  by (simp add: health_def)

lemma snd_ready: "snd (ready w) = w"
  by (simp add: ready_def split: option.splits)

lemma snd_list_engines: "snd (list_engines w) = w"
  by (simp add: list_engines_def)

lemma snd_predict_rul: "snd (predict_rul uid w) = w"
  by (simp add: predict_rul_def split: option.splits sum.splits pyval.splits)

lemma snd_get_trends: "snd (get_trends uid w) = w"
  by (simp add: get_trends_def Let_def split: sum.splits)

lemma snd_handle: "snd (handle req w) = w"
  by (cases req)
    (simp_all add: snd_respond snd_health snd_ready snd_list_engines snd_predict_rul
      snd_get_trends)

lemma serving_started: "serving w \<Longrightarrow> w = lifespan_startup module_init"
  by (induction rule: serving.induct) (simp_all add: snd_handle)

lemma started_world:
  "lifespan_startup module_init =
     \<lparr>db_engines = FAKE_DB_ENGINES, sensor_metadata = SENSOR_METADATA,
      inference_service = Some \<lparr>model = Some ''LSTM_LOADED''\<rparr>\<rparr>"
  by (simp add: lifespan_startup_def module_init_def InferenceService_init_def load_def)

section \<open>The table, looked up\<close>

lemma engine_lookup:
  "map_of FAKE_DB_ENGINES uid =
     (if uid = 1 then Some [(''max_cycles'', PyInt 192), (''status'', PyStr ''Active'')]
      else if uid = 2 then Some [(''max_cycles'', PyInt 250), (''status'', PyStr ''Retired'')]
      else if uid = 5 then Some [(''max_cycles'', PyInt 150), (''status'', PyStr ''Active'')]
      else None)"
  by (simp add: FAKE_DB_ENGINES_def)

lemma engine_keys: "fst ` set FAKE_DB_ENGINES = {1, 2, 5}"
  by (simp add: FAKE_DB_ENGINES_def)

lemma predict_192:
  "predict (PyInt 192) =
     Inr \<lparr>predicted_rul = 45, health_score = 6597773454097777 / 281474976710656,
          risk_level = ''High'', confidence = float_literal (95 / 100)\<rparr>"
  by code_simp

lemma predict_150:
  "predict (PyInt 150) =
     Inr \<lparr>predicted_rul = 45, health_score = 30,
          risk_level = ''Medium'', confidence = float_literal (95 / 100)\<rparr>"
  by code_simp

lemma confidence_value:
  "float_literal (95 / 100) = 4278419646001971 / 4503599627370496"
  "float_literal (19 / 20) = 4278419646001971 / 4503599627370496"
  by code_simp+

lemma predict_rul_started:
  "fst (predict_rul uid (lifespan_startup module_init)) =
     (if uid = 1 then
        Inr \<lparr>predicted_rul = 45, health_score = 6597773454097777 / 281474976710656,
             risk_level = ''High'', confidence = float_literal (95 / 100),
             unit_id = 1, current_cycle = 147\<rparr>
      else if uid = 2 then Inl (HTTPException 422 ''Engine is retired'')
      else if uid = 5 then
        Inr \<lparr>predicted_rul = 45, health_score = 30,
             risk_level = ''Medium'', confidence = float_literal (95 / 100),
             unit_id = 5, current_cycle = 105\<rparr>
      else Inl (HTTPException 404 ''Engine not found''))"
  by (simp add: predict_rul_def started_world FAKE_DB_ENGINES_def getitem_def
      predict_192 predict_150 validate_PredictionResponse_def
      prediction.defs PredictionResponse.defs del: predict.simps)

lemma getitem_Nil: "getitem [] k = Inl (KeyError k)"
  by (simp add: getitem_def)

lemma getitem_Cons: "getitem ((k', v) # d) k = (if k' = k then Inr v else getitem d k)"
  by (simp add: getitem_def)

lemma critical_metadata:
  "getitem SENSOR_METADATA ''s_2''
     = Inr [(''name'', ''LPC Outlet Temperature''), (''unit'', deg_R)]"
  "getitem SENSOR_METADATA ''s_11''
     = Inr [(''name'', ''HPC Outlet Static Pressure''), (''unit'', ''psia'')]"
  "getitem SENSOR_METADATA ''s_12''
     = Inr [(''name'', ''Fuel Flow Ratio''), (''unit'', ''pps/psi'')]"
  "getitem SENSOR_METADATA ''s_14''
     = Inr [(''name'', ''Corrected Core Speed''), (''unit'', ''rpm'')]"
  by (simp_all add: getitem_def SENSOR_METADATA_def)

lemma trend_data:
  "map (\<lambda>i. 1400 + int i * 2) [0..<length [100, 101, 102, 103, 104 :: int]]
     = [1400, 1402, 1404, 1406, 1408]"
  by (simp add: upt_rec)

lemma critical_series:
  "sensor_loop SENSOR_METADATA [100, 101, 102, 103, 104]
     [''s_2'', ''s_11'', ''s_12'', ''s_14''] [] =
   Inr [\<lparr>sensor_id = ''s_2'', name = ''LPC Outlet Temperature'', unit = deg_R,
          data = [1400, 1402, 1404, 1406, 1408]\<rparr>,
        \<lparr>sensor_id = ''s_11'', name = ''HPC Outlet Static Pressure'', unit = ''psia'',
          data = [1400, 1402, 1404, 1406, 1408]\<rparr>,
        \<lparr>sensor_id = ''s_12'', name = ''Fuel Flow Ratio'', unit = ''pps/psi'',
          data = [1400, 1402, 1404, 1406, 1408]\<rparr>,
        \<lparr>sensor_id = ''s_14'', name = ''Corrected Core Speed'', unit = ''rpm'',
          data = [1400, 1402, 1404, 1406, 1408]\<rparr>]"
  by (simp add: critical_metadata trend_data getitem_Cons)

lemma get_trends_started:
  "fst (get_trends uid (lifespan_startup module_init)) =
     (if uid = 1 \<or> uid = 2 \<or> uid = 5 then
        Inr \<lparr>trend_unit_id = uid, cycles = [100, 101, 102, 103, 104],
             rul_trend = [50, 49, 48, 47, 45],
             sensors =
               [\<lparr>sensor_id = ''s_2'', name = ''LPC Outlet Temperature'', unit = deg_R,
                  data = [1400, 1402, 1404, 1406, 1408]\<rparr>,
                \<lparr>sensor_id = ''s_11'', name = ''HPC Outlet Static Pressure'',
                  unit = ''psia'', data = [1400, 1402, 1404, 1406, 1408]\<rparr>,
                \<lparr>sensor_id = ''s_12'', name = ''Fuel Flow Ratio'', unit = ''pps/psi'',
                  data = [1400, 1402, 1404, 1406, 1408]\<rparr>,
                \<lparr>sensor_id = ''s_14'', name = ''Corrected Core Speed'', unit = ''rpm'',
                  data = [1400, 1402, 1404, 1406, 1408]\<rparr>]\<rparr>
      else Inl (HTTPException 404 ''Engine not found''))"
  by (simp add: get_trends_def started_world engine_lookup critical_series
      del: sensor_loop.simps)

section \<open>The prediction endpoint\<close>

text \<open>
  C1. For every engine of the table whose status is Active, the prediction response has a
  health score between 0 and 100, and its risk level is High exactly when the returned
  score is below 30, Medium exactly when it is at least 30 and below 70, and Low exactly
  when it is at least 70.
\<close>

theorem active_prediction_score_and_risk:
  assumes "serving w"
    and "map_of (db_engines w) uid = Some engine"
    and "getitem engine ''status'' = Inr (PyStr ''Active'')"
  shows "\<exists>r. fst (predict_rul uid w) = Inr r
           \<and> 0 \<le> health_score r \<and> health_score r \<le> 100
           \<and> (risk_level r = ''High'' \<longleftrightarrow> health_score r < 30)
           \<and> (risk_level r = ''Medium'' \<longleftrightarrow> 30 \<le> health_score r \<and> health_score r < 70)
           \<and> (risk_level r = ''Low'' \<longleftrightarrow> 70 \<le> health_score r)"
proof -
  have w: "w = lifespan_startup module_init"
    using assms(1) by (rule serving_started)
  have tbl: "map_of FAKE_DB_ENGINES uid = Some engine"
    using assms(2) by (simp add: w started_world)
  have "uid = 1 \<or> uid = 5"
    using tbl assms(3) by (auto simp: engine_lookup getitem_def split: if_splits)
  then show ?thesis
  proof
    assume "uid = 1"
    then show ?thesis by (simp add: w predict_rul_started)
  next
    assume "uid = 5"
    then show ?thesis by (simp add: w predict_rul_started)
  qed
qed

theorem active_prediction_score_and_risk_witness:
  "serving (lifespan_startup module_init)
   \<and> map_of (db_engines (lifespan_startup module_init)) 1
       = Some [(''max_cycles'', PyInt 192), (''status'', PyStr ''Active'')]
   \<and> getitem [(''max_cycles'', PyInt 192), (''status'', PyStr ''Active'')] ''status''
       = Inr (PyStr ''Active'')
   \<and> (\<exists>r. fst (predict_rul 1 (lifespan_startup module_init)) = Inr r
           \<and> 0 \<le> health_score r \<and> health_score r \<le> 100
           \<and> (risk_level r = ''High'' \<longleftrightarrow> health_score r < 30)
           \<and> (risk_level r = ''Medium'' \<longleftrightarrow> 30 \<le> health_score r \<and> health_score r < 70)
           \<and> (risk_level r = ''Low'' \<longleftrightarrow> 70 \<le> health_score r))"
proof -
  have a: "serving (lifespan_startup module_init)"
    by (rule serving.started)
  have b: "map_of (db_engines (lifespan_startup module_init)) 1
             = Some [(''max_cycles'', PyInt 192), (''status'', PyStr ''Active'')]"
    by (simp add: started_world engine_lookup)
  have c: "getitem [(''max_cycles'', PyInt 192), (''status'', PyStr ''Active'')] ''status''
             = Inr (PyStr ''Active'')"
    by (simp add: getitem_def)
  from a b c active_prediction_score_and_risk [OF a b c] show ?thesis
    by (intro conjI)
qed




text \<open>
  C3. For every integer \<open>unit_id\<close>, the prediction endpoint answers 404 exactly when
  \<open>unit_id\<close> is not a key of the engine table, 422 exactly when the engine exists and is
  Retired (unit 2 is), and a prediction response in every other case; it fails in no
  other way.
\<close>

theorem predict_rul_outcomes:
  assumes "serving w"
  shows "(status_code (fst (predict_rul uid w)) = 404 \<longleftrightarrow> uid \<notin> fst ` set (db_engines w))
       \<and> (status_code (fst (predict_rul uid w)) = 422 \<longleftrightarrow>
            (\<exists>engine. map_of (db_engines w) uid = Some engine
                \<and> getitem engine ''status'' = Inr (PyStr ''Retired'')))
       \<and> (status_code (fst (predict_rul uid w)) \<noteq> 404
            \<and> status_code (fst (predict_rul uid w)) \<noteq> 422
            \<longrightarrow> (\<exists>r. fst (predict_rul uid w) = Inr r))
       \<and> (\<forall>e. fst (predict_rul uid w) = Inl e \<longrightarrow>
              e = HTTPException 404 ''Engine not found''
              \<or> e = HTTPException 422 ''Engine is retired'')
       \<and> fst (predict_rul 2 w) = Inl (HTTPException 422 ''Engine is retired'')"
proof -
  have w: "w = lifespan_startup module_init"
    using assms by (rule serving_started)
  have tbl: "db_engines w = FAKE_DB_ENGINES"
    by (simp add: w started_world)
  consider "uid = 1" | "uid = 2" | "uid = 5" | "uid \<noteq> 1" "uid \<noteq> 2" "uid \<noteq> 5"
    by blast
  then show ?thesis
  proof cases
    case 1
    then show ?thesis
      by (simp add: tbl engine_keys engine_lookup getitem_def) (simp add: w predict_rul_started)
  next
    case 2
    then show ?thesis
      by (simp add: tbl engine_keys engine_lookup getitem_def) (simp add: w predict_rul_started)
  next
    case 3
    then show ?thesis
      by (simp add: tbl engine_keys engine_lookup getitem_def) (simp add: w predict_rul_started)
  next
    case 4
    then show ?thesis
      by (simp add: tbl engine_keys engine_lookup getitem_def) (simp add: w predict_rul_started)
  qed
qed

theorem predict_rul_outcomes_witness:
  "serving (lifespan_startup module_init)
   \<and> status_code (fst (predict_rul 99 (lifespan_startup module_init))) = 404
   \<and> status_code (fst (predict_rul 2 (lifespan_startup module_init))) = 422
   \<and> (\<exists>r. fst (predict_rul 5 (lifespan_startup module_init)) = Inr r)"
proof -
  have a: "serving (lifespan_startup module_init)"
    by (rule serving.started)
  have k: "db_engines (lifespan_startup module_init) = FAKE_DB_ENGINES"
    by (simp add: started_world)
  have "status_code (fst (predict_rul 99 (lifespan_startup module_init))) = 404"
    using predict_rul_outcomes [OF a, of 99] by (simp add: k engine_keys)
  moreover have "status_code (fst (predict_rul 2 (lifespan_startup module_init))) = 422"
    using predict_rul_outcomes [OF a, of 2] by simp
  moreover have "\<exists>r. fst (predict_rul 5 (lifespan_startup module_init)) = Inr r"
    using predict_rul_outcomes [OF a, of 5]
    by (simp add: k engine_keys engine_lookup getitem_def)
  ultimately show ?thesis using a by simp
qed

text \<open>
  C4. For every Active engine of the table (these are units 1 and 5), the prediction
  response carries \<open>predicted_rul = 45\<close>, \<open>current_cycle = max_cycles - 45\<close> for that
  engine's \<open>max_cycles\<close>, and the confidence 0.95: the float of that literal, which is
  \<open>4278419646001971 / 2^52\<close> and lies within \<open>2^-54\<close> of 0.95.
\<close>

theorem active_prediction_fields:
  assumes "serving w"
    and "map_of (db_engines w) uid = Some engine"
    and "getitem engine ''status'' = Inr (PyStr ''Active'')"
    and "getitem engine ''max_cycles'' = Inr (PyInt m)"
  shows "(uid = 1 \<or> uid = 5)
       \<and> (\<exists>r. fst (predict_rul uid w) = Inr r
              \<and> unit_id r = uid
              \<and> predicted_rul r = 45
              \<and> current_cycle r = m - 45
              \<and> confidence r = 4278419646001971 / 4503599627370496
              \<and> \<bar>confidence r - 95 / 100\<bar> \<le> 1 / 2 ^ 54)"
proof -
  have w: "w = lifespan_startup module_init"
    using assms(1) by (rule serving_started)
  have tbl: "map_of FAKE_DB_ENGINES uid = Some engine"
    using assms(2) by (simp add: w started_world)
  have "uid = 1 \<and> m = 192 \<or> uid = 5 \<and> m = 150"
    using tbl assms(3,4) by (auto simp: engine_lookup getitem_def split: if_splits)
  then show ?thesis
    by (auto simp: w predict_rul_started confidence_value)
qed

theorem active_prediction_fields_witness:
  "serving (lifespan_startup module_init)
   \<and> map_of (db_engines (lifespan_startup module_init)) 5
       = Some [(''max_cycles'', PyInt 150), (''status'', PyStr ''Active'')]
   \<and> getitem [(''max_cycles'', PyInt 150), (''status'', PyStr ''Active'')] ''status''
       = Inr (PyStr ''Active'')
   \<and> getitem [(''max_cycles'', PyInt 150), (''status'', PyStr ''Active'')] ''max_cycles''
       = Inr (PyInt 150)
   \<and> (\<exists>r. fst (predict_rul 5 (lifespan_startup module_init)) = Inr r
          \<and> unit_id r = 5
          \<and> predicted_rul r = 45
          \<and> current_cycle r = 105
          \<and> confidence r = 4278419646001971 / 4503599627370496
              \<and> \<bar>confidence r - 95 / 100\<bar> \<le> 1 / 2 ^ 54)"
proof -
  have a: "serving (lifespan_startup module_init)"
    by (rule serving.started)
  have b: "map_of (db_engines (lifespan_startup module_init)) 5
             = Some [(''max_cycles'', PyInt 150), (''status'', PyStr ''Active'')]"
    by (simp add: started_world engine_lookup)
  have c: "getitem [(''max_cycles'', PyInt 150), (''status'', PyStr ''Active'')] ''status''
             = Inr (PyStr ''Active'')"
    by (simp add: getitem_def)
  have d: "getitem [(''max_cycles'', PyInt 150), (''status'', PyStr ''Active'')] ''max_cycles''
             = Inr (PyInt 150)"
    by (simp add: getitem_def)
  from active_prediction_fields [OF a b c d]
  have "\<exists>r. fst (predict_rul 5 (lifespan_startup module_init)) = Inr r
          \<and> unit_id r = 5
          \<and> predicted_rul r = 45
          \<and> current_cycle r = 105
          \<and> confidence r = 4278419646001971 / 4503599627370496
              \<and> \<bar>confidence r - 95 / 100\<bar> \<le> 1 / 2 ^ 54"
    by simp
  with a b c d show ?thesis
    by (intro conjI)
qed

text \<open>
  C10. Reached through the prediction endpoint, the scoring function never divides by
  zero: every engine of the table is a non-empty dict whose \<open>max_cycles\<close> is an integer
  of at least 150, the scoring function raises ZeroDivisionError only on \<open>max_cycles = 0\<close>,
  and the endpoint's falsiness check turns away exactly the identifiers that are not keys
  of the table.
\<close>

theorem predict_rul_no_division_by_zero:
  assumes "serving w"
  shows "fst (predict_rul uid w) \<noteq> Inl ZeroDivisionError
       \<and> (\<forall>(k, engine) \<in> set (db_engines w).
             engine \<noteq> [] \<and> (\<exists>m. getitem engine ''max_cycles'' = Inr (PyInt m) \<and> 150 \<le> m))
       \<and> (predict mc = Inl ZeroDivisionError \<longleftrightarrow> mc = PyInt 0)
       \<and> (fst (predict_rul uid w) = Inl (HTTPException 404 ''Engine not found'')
            \<longleftrightarrow> uid \<notin> fst ` set (db_engines w))"
proof -
  have w: "w = lifespan_startup module_init"
    using assms by (rule serving_started)
  have tbl: "db_engines w = FAKE_DB_ENGINES"
    by (simp add: w started_world)
  have 1: "fst (predict_rul uid w) \<noteq> Inl ZeroDivisionError"
    by (simp add: w predict_rul_started)
  have 2: "\<forall>(k, engine) \<in> set (db_engines w).
             engine \<noteq> [] \<and> (\<exists>m. getitem engine ''max_cycles'' = Inr (PyInt m) \<and> 150 \<le> m)"
    by (simp add: tbl FAKE_DB_ENGINES_def getitem_def)
  have 3: "predict mc = Inl ZeroDivisionError \<longleftrightarrow> mc = PyInt 0"
    by (cases mc) (simp_all add: Let_def)
  have 4: "fst (predict_rul uid w) = Inl (HTTPException 404 ''Engine not found'')
            \<longleftrightarrow> uid \<notin> fst ` set (db_engines w)"
    by (simp add: tbl engine_keys) (simp add: w predict_rul_started)
  from 1 2 3 4 show ?thesis
    by (intro conjI)
qed

theorem predict_rul_no_division_by_zero_witness:
  "serving (lifespan_startup module_init)
   \<and> fst (predict_rul 1 (lifespan_startup module_init)) \<noteq> Inl ZeroDivisionError
   \<and> predict (PyInt 0) = Inl ZeroDivisionError
   \<and> fst (predict_rul 0 (lifespan_startup module_init))
       = Inl (HTTPException 404 ''Engine not found'')"
proof -
  have a: "serving (lifespan_startup module_init)"
    by (rule serving.started)
  have k: "db_engines (lifespan_startup module_init) = FAKE_DB_ENGINES"
    by (simp add: started_world)
  have "fst (predict_rul 1 (lifespan_startup module_init)) \<noteq> Inl ZeroDivisionError"
    using predict_rul_no_division_by_zero [OF a, of 1] by simp
  moreover have "predict (PyInt 0) = Inl ZeroDivisionError"
    using predict_rul_no_division_by_zero [OF a, of 1 "PyInt 0"] by simp
  moreover have "fst (predict_rul 0 (lifespan_startup module_init))
                   = Inl (HTTPException 404 ''Engine not found'')"
    using predict_rul_no_division_by_zero [OF a, of 0] by (simp add: k engine_keys)
  ultimately show ?thesis using a by simp
qed

section \<open>The trend endpoint\<close>

text \<open>
  C5. For every unit of the engine table, the trend response holds exactly the five cycle
  indices 100 to 104, the fixed RUL trend 50, 49, 48, 47, 45, and exactly four sensor
  series, for \<open>s_2\<close>, \<open>s_11\<close>, \<open>s_12\<close> and \<open>s_14\<close> with their names and units from
  the sensor table, each with the data 1400, 1402, 1404, 1406, 1408, that is
  \<open>1400 + 2 * i\<close> for \<open>i\<close> from 0 to 4.
\<close>

theorem get_trends_response:
  assumes "serving w"
    and "uid \<in> fst ` set (db_engines w)"
  shows "\<exists>r. fst (get_trends uid w) = Inr r
           \<and> trend_unit_id r = uid
           \<and> cycles r = [100, 101, 102, 103, 104]
           \<and> rul_trend r = [50, 49, 48, 47, 45]
           \<and> sensors r =
               [\<lparr>sensor_id = ''s_2'', name = ''LPC Outlet Temperature'', unit = deg_R,
                  data = [1400, 1402, 1404, 1406, 1408]\<rparr>,
                \<lparr>sensor_id = ''s_11'', name = ''HPC Outlet Static Pressure'',
                  unit = ''psia'', data = [1400, 1402, 1404, 1406, 1408]\<rparr>,
                \<lparr>sensor_id = ''s_12'', name = ''Fuel Flow Ratio'', unit = ''pps/psi'',
                  data = [1400, 1402, 1404, 1406, 1408]\<rparr>,
                \<lparr>sensor_id = ''s_14'', name = ''Corrected Core Speed'', unit = ''rpm'',
                  data = [1400, 1402, 1404, 1406, 1408]\<rparr>]
           \<and> (\<forall>s \<in> set (sensors r).
                 data s = map (\<lambda>i. 1400 + 2 * i) [0..4]
                 \<and> getitem (sensor_metadata w) (sensor_id s)
                     = Inr [(''name'', name s), (''unit'', unit s)])"
proof -
  have w: "w = lifespan_startup module_init"
    using assms(1) by (rule serving_started)
  have "uid \<in> {1, 2, 5}"
    using assms(2) by (simp add: w started_world engine_keys)
  then have uid: "uid = 1 \<or> uid = 2 \<or> uid = 5"
    by blast
  have meta: "sensor_metadata w = SENSOR_METADATA"
    by (simp add: w started_world)
  have upto: "map (\<lambda>i. 1400 + 2 * i) [0..4] = [1400, 1402, 1404, 1406, 1408 :: int]"
    by (simp add: upto.simps)
  show ?thesis
    using uid by (simp add: w get_trends_started meta [unfolded w] upto critical_metadata)
qed

theorem get_trends_response_witness:
  "serving (lifespan_startup module_init)
   \<and> 5 \<in> fst ` set (db_engines (lifespan_startup module_init))
   \<and> (\<exists>r. fst (get_trends 5 (lifespan_startup module_init)) = Inr r
           \<and> trend_unit_id r = 5
           \<and> cycles r = [100, 101, 102, 103, 104]
           \<and> rul_trend r = [50, 49, 48, 47, 45]
           \<and> sensors r =
               [\<lparr>sensor_id = ''s_2'', name = ''LPC Outlet Temperature'', unit = deg_R,
                  data = [1400, 1402, 1404, 1406, 1408]\<rparr>,
                \<lparr>sensor_id = ''s_11'', name = ''HPC Outlet Static Pressure'',
                  unit = ''psia'', data = [1400, 1402, 1404, 1406, 1408]\<rparr>,
                \<lparr>sensor_id = ''s_12'', name = ''Fuel Flow Ratio'', unit = ''pps/psi'',
                  data = [1400, 1402, 1404, 1406, 1408]\<rparr>,
                \<lparr>sensor_id = ''s_14'', name = ''Corrected Core Speed'', unit = ''rpm'',
                  data = [1400, 1402, 1404, 1406, 1408]\<rparr>]
           \<and> (\<forall>s \<in> set (sensors r).
                 data s = map (\<lambda>i. 1400 + 2 * i) [0..4]
                 \<and> getitem (sensor_metadata (lifespan_startup module_init)) (sensor_id s)
                     = Inr [(''name'', name s), (''unit'', unit s)]))"
proof -
  have a: "serving (lifespan_startup module_init)"
    by (rule serving.started)
  have b: "5 \<in> fst ` set (db_engines (lifespan_startup module_init))"
    by (simp add: started_world engine_keys)
  from a b get_trends_response [OF a b] show ?thesis
    by (intro conjI)
qed

text \<open>
  C6. The trend endpoint answers 404 exactly when \<open>unit_id\<close> is not a key of the engine
  table and returns a trend response for every key, whatever the engine's status: unit 2
  is Retired and gets a response, not an error.
\<close>

theorem get_trends_outcomes:
  assumes "serving w"
  shows "(status_code (fst (get_trends uid w)) = 404 \<longleftrightarrow> uid \<notin> fst ` set (db_engines w))
       \<and> (uid \<in> fst ` set (db_engines w) \<longrightarrow> (\<exists>r. fst (get_trends uid w) = Inr r))
       \<and> (\<forall>e. fst (get_trends uid w) = Inl e \<longrightarrow> e = HTTPException 404 ''Engine not found'')
       \<and> (\<exists>engine. map_of (db_engines w) 2 = Some engine
              \<and> getitem engine ''status'' = Inr (PyStr ''Retired''))
       \<and> (\<exists>r. fst (get_trends 2 w) = Inr r)"
proof -
  have w: "w = lifespan_startup module_init"
    using assms by (rule serving_started)
  have tbl: "db_engines w = FAKE_DB_ENGINES"
    by (simp add: w started_world)
  have 1: "status_code (fst (get_trends uid w)) = 404 \<longleftrightarrow> uid \<notin> fst ` set (db_engines w)"
    by (simp add: tbl engine_keys) (simp add: w get_trends_started)
  have 2: "uid \<in> fst ` set (db_engines w) \<longrightarrow> (\<exists>r. fst (get_trends uid w) = Inr r)"
    by (simp add: tbl engine_keys) (simp add: w get_trends_started)
  have 3: "\<forall>e. fst (get_trends uid w) = Inl e \<longrightarrow> e = HTTPException 404 ''Engine not found''"
    by (simp add: w get_trends_started)
  have 4: "\<exists>engine. map_of (db_engines w) 2 = Some engine
              \<and> getitem engine ''status'' = Inr (PyStr ''Retired'')"
    by (simp add: tbl engine_lookup getitem_def)
  have 5: "\<exists>r. fst (get_trends 2 w) = Inr r"
    by (simp add: w get_trends_started)
  from 1 2 3 4 5 show ?thesis
    by (intro conjI)
qed

theorem get_trends_outcomes_witness:
  "serving (lifespan_startup module_init)
   \<and> status_code (fst (get_trends 99 (lifespan_startup module_init))) = 404
   \<and> (\<exists>r. fst (get_trends 2 (lifespan_startup module_init)) = Inr r)"
proof -
  have a: "serving (lifespan_startup module_init)"
    by (rule serving.started)
  have k: "db_engines (lifespan_startup module_init) = FAKE_DB_ENGINES"
    by (simp add: started_world)
  have "status_code (fst (get_trends 99 (lifespan_startup module_init))) = 404"
    using get_trends_outcomes [OF a, of 99] by (simp add: k engine_keys)
  moreover have "\<exists>r. fst (get_trends 2 (lifespan_startup module_init)) = Inr r"
    using get_trends_outcomes [OF a, of 2] by blast
  ultimately show ?thesis using a by simp
qed

section \<open>Lifecycle probes\<close>

text \<open>
  C7. The liveness probe returns \<open>{status: ok}\<close> with status 200 in every state. In
  every state in which the server answers requests, the readiness probe returns status
  200 with a boolean \<open>model_loaded\<close>, and since the startup hook has completed by then,
  \<open>model_loaded\<close> is true.
\<close>

theorem probes:
  "fst (health w) = Inr ''ok''
   \<and> status_code (fst (health w)) = 200
   \<and> (serving w \<longrightarrow>
         status_code (fst (ready w)) = 200
         \<and> (\<exists>b. fst (ready w) = Inr b)
         \<and> fst (ready w) = Inr True)"
proof -
  have 1: "fst (health w) = Inr ''ok''" "status_code (fst (health w)) = 200"
    by (simp_all add: health_def)
  have 2: "serving w \<longrightarrow>
         status_code (fst (ready w)) = 200
         \<and> (\<exists>b. fst (ready w) = Inr b)
         \<and> fst (ready w) = Inr True"
  proof
    assume "serving w"
    then have "w = lifespan_startup module_init"
      by (rule serving_started)
    then have r: "fst (ready w) = Inr True"
      by (simp add: ready_def started_world)
    then have "status_code (fst (ready w)) = 200"
      by simp
    moreover from r have "\<exists>b. fst (ready w) = Inr b"
      by (rule exI)
    ultimately show "status_code (fst (ready w)) = 200
         \<and> (\<exists>b. fst (ready w) = Inr b)
         \<and> fst (ready w) = Inr True"
      using r by (intro conjI)
  qed
  from 1 2 show ?thesis
    by (intro conjI)
qed

theorem probes_witness:
  "serving (lifespan_startup module_init)
   \<and> fst (health (lifespan_startup module_init)) = Inr ''ok''
   \<and> fst (ready (lifespan_startup module_init)) = Inr True
   \<and> status_code (fst (ready (lifespan_startup module_init))) = 200"
proof -
  have a: "serving (lifespan_startup module_init)"
    by (rule serving.started)
  with probes [of "lifespan_startup module_init"] show ?thesis
    by simp
qed

section \<open>Frame\<close>

text \<open>
  C8. No request handler (engine listing, prediction, trends, liveness, readiness)
  changes the engine table, the sensor table or the stored service with its model flag.
  The startup hook changes nothing but the stored service. The engine table holds exactly
  the three records for units 1, 2 and 5, from import on and in every serving state, and
  in every serving state the model flag still has the value the startup hook gave it.
\<close>

theorem handlers_write_nothing:
  "db_engines (snd (handle req w)) = db_engines w
   \<and> sensor_metadata (snd (handle req w)) = sensor_metadata w
   \<and> inference_service (snd (handle req w)) = inference_service w
   \<and> db_engines (lifespan_startup w) = db_engines w
   \<and> sensor_metadata (lifespan_startup w) = sensor_metadata w
   \<and> inference_service module_init = None
   \<and> map fst (db_engines module_init) = [1, 2, 5]
   \<and> (serving w \<longrightarrow>
         map fst (db_engines w) = [1, 2, 5]
         \<and> db_engines w = FAKE_DB_ENGINES
         \<and> sensor_metadata w = SENSOR_METADATA
         \<and> inference_service w = Some \<lparr>model = Some ''LSTM_LOADED''\<rparr>)"
proof -
  have 1: "db_engines (snd (handle req w)) = db_engines w"
      "sensor_metadata (snd (handle req w)) = sensor_metadata w"
      "inference_service (snd (handle req w)) = inference_service w"
    by (simp_all add: snd_handle)
  have 2: "db_engines (lifespan_startup w) = db_engines w"
      "sensor_metadata (lifespan_startup w) = sensor_metadata w"
    by (simp_all add: lifespan_startup_def)
  have 3: "inference_service module_init = None"
      "map fst (db_engines module_init) = [1, 2, 5]"
    by (simp_all add: module_init_def FAKE_DB_ENGINES_def)
  have 4: "serving w \<longrightarrow>
         map fst (db_engines w) = [1, 2, 5]
         \<and> db_engines w = FAKE_DB_ENGINES
         \<and> sensor_metadata w = SENSOR_METADATA
         \<and> inference_service w = Some \<lparr>model = Some ''LSTM_LOADED''\<rparr>"
  proof
    assume "serving w"
    then have w: "w = lifespan_startup module_init"
      by (rule serving_started)
    have "map fst FAKE_DB_ENGINES = [1, 2, 5]"
      by (simp add: FAKE_DB_ENGINES_def)
    then show "map fst (db_engines w) = [1, 2, 5]
         \<and> db_engines w = FAKE_DB_ENGINES
         \<and> sensor_metadata w = SENSOR_METADATA
         \<and> inference_service w = Some \<lparr>model = Some ''LSTM_LOADED''\<rparr>"
      by (simp add: w started_world)
  qed
  from 1 2 3 4 show ?thesis
    by (intro conjI)
qed

theorem handlers_write_nothing_witness:
  "serving (lifespan_startup module_init)
   \<and> snd (handle (PredictRul 1) (lifespan_startup module_init))
       = lifespan_startup module_init
   \<and> map fst (db_engines (lifespan_startup module_init)) = [1, 2, 5]
   \<and> inference_service (lifespan_startup module_init)
       = Some \<lparr>model = Some ''LSTM_LOADED''\<rparr>"
proof -
  have a: "serving (lifespan_startup module_init)"
    by (rule serving.started)
  note h = handlers_write_nothing [of "PredictRul 1" "lifespan_startup module_init"]
  have "snd (handle (PredictRul 1) (lifespan_startup module_init))
          = lifespan_startup module_init"
    using h by (intro world.equality) simp_all
  moreover from h have "serving (lifespan_startup module_init) \<longrightarrow>
         map fst (db_engines (lifespan_startup module_init)) = [1, 2, 5]
         \<and> db_engines (lifespan_startup module_init) = FAKE_DB_ENGINES
         \<and> sensor_metadata (lifespan_startup module_init) = SENSOR_METADATA
         \<and> inference_service (lifespan_startup module_init)
             = Some \<lparr>model = Some ''LSTM_LOADED''\<rparr>"
    by (elim conjE)
  ultimately show ?thesis using a by (intro conjI) (elim impE conjE, assumption+)+
qed

end
